theory Spec2Isabelle
  imports Complex_Main "HOL-Library.Sublist" "HOL-Library.Multiset"
begin

section \<open>Data model\<close>

text \<open>
  A cell of a numeric column is a float or missing. Pandas stores a missing number as NaN,
  so one type serves for both: \<open>None\<close> is NaN, \<open>Some x\<close> is the number \<open>x\<close>. Numbers
  are exact reals: rounding and overflow of the 64-bit floats are outside this model.
  A description cell is a string or missing. Characters are the 8-bit characters of HOL.
\<close>

type_synonym cell = "real option"

record row =
  description :: "string option"
  embodied_energy :: cell
  embodied_carbon :: cell

type_synonym dataframe = "row list"

text \<open>The dictionary returned by \<open>perform_analysis\<close>.\<close>

record summary =
  skew_ee :: cell
  skew_ec :: cell
  median_ee :: cell
  median_ec :: cell
  data :: dataframe

section \<open>Float arithmetic with NaN\<close>

definition nan_lift :: "(real \<Rightarrow> real \<Rightarrow> real) \<Rightarrow> cell \<Rightarrow> cell \<Rightarrow> cell" where
  "nan_lift f a b = (case a of None \<Rightarrow> None | Some x \<Rightarrow> (case b of None \<Rightarrow> None | Some y \<Rightarrow> Some (f x y)))"

definition nan_add :: "cell \<Rightarrow> cell \<Rightarrow> cell" where
  "nan_add = nan_lift (+)"

definition nan_sub :: "cell \<Rightarrow> cell \<Rightarrow> cell" where
  "nan_sub = nan_lift (-)"

definition nan_mul :: "cell \<Rightarrow> cell \<Rightarrow> cell" where
  "nan_mul = nan_lift (*)"

text \<open>A comparison with NaN on either side is false.\<close>

definition nan_ge :: "cell \<Rightarrow> cell \<Rightarrow> bool" where
  "nan_ge a b = (case a of None \<Rightarrow> False | Some x \<Rightarrow> (case b of None \<Rightarrow> False | Some y \<Rightarrow> y \<le> x))"

definition nan_le :: "cell \<Rightarrow> cell \<Rightarrow> bool" where
  "nan_le a b = (case a of None \<Rightarrow> False | Some x \<Rightarrow> (case b of None \<Rightarrow> False | Some y \<Rightarrow> x \<le> y))"

section \<open>Library functions the analysis calls\<close>

text \<open>\<open>Series.dropna()\<close>: the non-missing values, in order.\<close>

fun dropna :: "cell list \<Rightarrow> real list" where
  "dropna [] = []"
| "dropna (None # vs) = dropna vs"
| "dropna (Some x # vs) = x # dropna vs"

text \<open>
  \<open>numpy.percentile\<close> with its default method \<open>linear\<close>, on a non-empty array: the virtual
  index is \<open>(n - 1) * q\<close>, the neighbours are its floor and the next index (clipped to the
  last one), and the result interpolates between them.
\<close>

definition lerp :: "real \<Rightarrow> real \<Rightarrow> real \<Rightarrow> real" where
  "lerp a b t = a + (b - a) * t"

definition percentile_linear :: "real list \<Rightarrow> real \<Rightarrow> real" where
  "percentile_linear xs q =
     (let s = sort xs;
          n = length s;
          h = real (n - 1) * q;
          lo = nat \<lfloor>h\<rfloor>;
          hi = min (lo + 1) (n - 1)
      in lerp (s ! lo) (s ! hi) (h - real lo))"

text \<open>\<open>Series.quantile(q)\<close>: missing values are skipped; NaN when nothing is left.\<close>

definition quantile :: "cell list \<Rightarrow> real \<Rightarrow> cell" where
  "quantile col q =
     (let xs = dropna col in if xs = [] then None else Some (percentile_linear xs q))"

text \<open>
  \<open>Series.median()\<close>: missing values are skipped; NaN when nothing is left; the middle
  value of the sorted values, or the mean of the two middle values.
\<close>

definition median :: "cell list \<Rightarrow> cell" where
  "median col =
     (let s = sort (dropna col);
          n = length s
      in if n = 0 then None
         else if odd n then Some (s ! (n div 2))
         else Some ((s ! (n div 2 - 1) + s ! (n div 2)) / 2))"

text \<open>
  \<open>scipy.stats.skew\<close> with its defaults (\<open>bias=True\<close>): the third central moment over the
  second to the power 1.5. An empty sample gives NaN, and so does a sample whose second
  moment is zero up to the resolution of the float type (\<open>1e-15\<close> for 64 bits) times the mean.
\<close>

definition mean :: "real list \<Rightarrow> real" where
  "mean xs = sum_list xs / real (length xs)"

definition moment :: "nat \<Rightarrow> real list \<Rightarrow> real" where
  "moment k xs = sum_list (map (\<lambda>x. (x - mean xs) ^ k) xs) / real (length xs)"

definition resolution :: real where
  "resolution = 1 / 10 ^ 15"

definition skew :: "real list \<Rightarrow> cell" where
  "skew xs =
     (if xs = [] then None
      else if moment 2 xs \<le> (resolution * mean xs) ^ 2 then None
      else Some (moment 3 xs / (moment 2 xs powr (3 / 2))))"

section \<open>Outlier trimming as the analysis does it\<close>

text \<open>
  Lines 25 to 29 and 38 of the source for one column: the quartiles, the boolean mask
  of the two comparisons, the selection by the mask and the median of what is selected.
\<close>

definition iqr_clean :: "cell list \<Rightarrow> cell list" where
  "iqr_clean col =
     (let Q1 = quantile col (25 / 100);
          Q3 = quantile col (75 / 100);
          IQR = nan_sub Q3 Q1
      in filter (\<lambda>v. nan_ge v (nan_sub Q1 (nan_mul (Some (3 / 2)) IQR))
                    \<and> nan_le v (nan_add Q3 (nan_mul (Some (3 / 2)) IQR))) col)"

section \<open>Regular expressions as \<open>str.contains\<close> uses them\<close>

text \<open>
  \<open>Series.str.contains(pat, case=False, na=False)\<close> has \<open>regex=True\<close> by default: it compiles
  \<open>pat\<close> with Python's \<open>re\<close> under \<open>re.IGNORECASE\<close> and asks \<open>search\<close> for every string
  of the column. This section models a fragment of the pattern syntax: literal characters,
  \<open>.\<close>, groups, \<open>|\<close>, the repeats \<open>*\<close>, \<open>+\<close>, \<open>?\<close> (greedy or lazy) and a backslash before a
  character that is no ASCII letter or digit. A pattern that \<open>re\<close> rejects raises \<open>re.error\<close>
  (\<open>ReError\<close>); a pattern that leaves the fragment (sets, counted and possessive repeats,
  anchors, group extensions, letter and digit escapes) gives \<open>Unsupported\<close>, about which
  nothing is claimed.
\<close>

datatype error = ReError | Unsupported

datatype regex = Nul | Eps | Lit char | Dot | Cat regex regex | Alt regex regex | Star regex

text \<open>\<open>str.lower\<close> on one 8-bit character: the ASCII capitals and the Latin-1 capitals.\<close>

definition lower :: "char \<Rightarrow> char" where
  "lower c =
     (let n = of_char c :: nat
      in if (65 \<le> n \<and> n \<le> 90) \<or> (192 \<le> n \<and> n \<le> 222 \<and> n \<noteq> 215)
         then char_of (n + 32) else c)"

definition is_alnum :: "char \<Rightarrow> bool" where
  "is_alnum c =
     (let n = of_char c :: nat
      in (48 \<le> n \<and> n \<le> 57) \<or> (65 \<le> n \<and> n \<le> 90) \<or> (97 \<le> n \<and> n \<le> 122))"

subsection \<open>Matching\<close>

fun nullable :: "regex \<Rightarrow> bool" where
  "nullable Nul = False"
| "nullable Eps = True"
| "nullable (Lit a) = False"
| "nullable Dot = False"
| "nullable (Cat r s) = (nullable r \<and> nullable s)"
| "nullable (Alt r s) = (nullable r \<or> nullable s)"
| "nullable (Star r) = True"

text \<open>
  What is left of a pattern after it has read one character. A literal reads a character
  that is equal to it up to case; the dot reads any character but the newline.
\<close>

fun deriv :: "char \<Rightarrow> regex \<Rightarrow> regex" where
  "deriv c Nul = Nul"
| "deriv c Eps = Nul"
| "deriv c (Lit a) = (if lower c = lower a then Eps else Nul)"
| "deriv c Dot = (if c = CHR 0x0A then Nul else Eps)"
| "deriv c (Cat r s) =
     (if nullable r then Alt (Cat (deriv c r) s) (deriv c s) else Cat (deriv c r) s)"
| "deriv c (Alt r s) = Alt (deriv c r) (deriv c s)"
| "deriv c (Star r) = Cat (deriv c r) (Star r)"

text \<open>\<open>match_here r s\<close>: the pattern matches some prefix of \<open>s\<close>.\<close>

fun match_here :: "regex \<Rightarrow> string \<Rightarrow> bool" where
  "match_here r [] = nullable r"
| "match_here r (c # cs) = (nullable r \<or> match_here (deriv c r) cs)"

text \<open>\<open>Pattern.search\<close> as a truth value: the pattern matches at some position of \<open>s\<close>.\<close>

fun re_search :: "regex \<Rightarrow> string \<Rightarrow> bool" where
  "re_search r [] = nullable r"
| "re_search r (c # cs) = (match_here r (c # cs) \<or> re_search r cs)"

subsection \<open>Parsing a pattern\<close>

text \<open>
  An item of a branch remembers whether it is a repeat, since \<open>re\<close> rejects a repeat of
  a repeat: \<open>Plain\<close> is no repeat, \<open>Rep\<close> a repeat just read (a \<open>?\<close> may still make it lazy),
  \<open>RepLazy\<close> a repeat with its lazy mark.
\<close>

datatype istat = Plain | Rep | RepLazy

text \<open>
  The parser reads the pattern left to right. \<open>branches\<close> are the finished alternatives
  of the group being read and \<open>items\<close> the items of its current alternative, both last
  first; \<open>outer\<close> holds the same two for every enclosing group; \<open>escaped\<close> says that
  the last character was a backslash.
\<close>

record pstate =
  branches :: "regex list"
  items :: "(regex \<times> istat) list"
  outer :: "(regex list \<times> (regex \<times> istat) list) list"
  escaped :: bool

definition pstate0 :: pstate where
  "pstate0 = \<lparr>branches = [], items = [], outer = [], escaped = False\<rparr>"

definition mk_seq :: "(regex \<times> istat) list \<Rightarrow> regex" where
  "mk_seq its = foldl (\<lambda>acc it. Cat (fst it) acc) Eps its"

definition close_group :: "pstate \<Rightarrow> regex" where
  "close_group st = foldl (\<lambda>acc b. Alt b acc) (mk_seq (items st)) (branches st)"

definition push_item :: "regex \<Rightarrow> pstate \<Rightarrow> pstate" where
  "push_item r st = st\<lparr>items := (r, Plain) # items st, escaped := False\<rparr>"

definition repeat :: "char \<Rightarrow> regex \<Rightarrow> regex" where
  "repeat c r =
     (if c = CHR ''*'' then Star r
      else if c = CHR ''+'' then Cat r (Star r)
      else Alt r Eps)"

definition re_step :: "char \<Rightarrow> pstate \<Rightarrow> error + pstate" where
  "re_step c st =
     (if escaped st then
        (if is_alnum c then Inl Unsupported else Inr (push_item (Lit c) st))
      else if c = CHR 0x5C then Inr (st\<lparr>escaped := True\<rparr>)
      else if c = CHR ''.'' then Inr (push_item Dot st)
      else if c = CHR ''('' then
        Inr \<lparr>branches = [], items = [],
             outer = (branches st, items st) # outer st, escaped = False\<rparr>
      else if c = CHR '')'' then
        (case outer st of
           [] \<Rightarrow> Inl ReError
         | (bs, its) # rest \<Rightarrow>
             Inr \<lparr>branches = bs, items = (close_group st, Plain) # its,
                  outer = rest, escaped = False\<rparr>)
      else if c = CHR ''|'' then
        Inr (st\<lparr>branches := mk_seq (items st) # branches st, items := []\<rparr>)
      else if c = CHR ''*'' \<or> c = CHR ''+'' \<or> c = CHR ''?'' then
        (case items st of
           [] \<Rightarrow>
             (if c = CHR ''?'' \<and> branches st = [] \<and> outer st \<noteq> []
              then Inl Unsupported else Inl ReError)
         | (r, Plain) # its \<Rightarrow> Inr (st\<lparr>items := (repeat c r, Rep) # its\<rparr>)
         | (r, Rep) # its \<Rightarrow>
             (if c = CHR ''?'' then Inr (st\<lparr>items := (r, RepLazy) # its\<rparr>)
              else if c = CHR ''+'' then Inl Unsupported
              else Inl ReError)
         | (r, RepLazy) # its \<Rightarrow> Inl ReError)
      else if c = CHR ''['' \<or> c = CHR ''{'' \<or> c = CHR ''^'' \<or> c = CHR ''$'' then
        Inl Unsupported
      else Inr (push_item (Lit c) st))"

fun re_run :: "pstate \<Rightarrow> string \<Rightarrow> error + pstate" where
  "re_run st [] = Inr st"
| "re_run st (c # cs) = (case re_step c st of Inl e \<Rightarrow> Inl e | Inr st' \<Rightarrow> re_run st' cs)"

text \<open>
  \<open>re.compile\<close>: at the end of the pattern a pending backslash and a group left open are
  errors.
\<close>

definition re_compile :: "string \<Rightarrow> error + regex" where
  "re_compile pat =
     (case re_run pstate0 pat of
        Inl e \<Rightarrow> Inl e
      | Inr st \<Rightarrow>
          (if escaped st \<or> outer st \<noteq> [] then Inl ReError else Inr (close_group st)))"

text \<open>
  \<open>Series.str.contains(pat, case=False, na=False)\<close>: the pattern is compiled first, then
  searched in every cell; a missing cell gives \<open>False\<close>.
\<close>

definition str_contains :: "string option list \<Rightarrow> string \<Rightarrow> error + bool list" where
  "str_contains col pat =
     (case re_compile pat of
        Inl e \<Rightarrow> Inl e
      | Inr r \<Rightarrow> Inr (map (\<lambda>d. case d of None \<Rightarrow> False | Some s \<Rightarrow> re_search r s) col))"

section \<open>The analysis of one material\<close>

text \<open>Selection of the rows of a frame by a boolean mask, \<open>df[mask]\<close>.\<close>

definition select_rows :: "'a list \<Rightarrow> bool list \<Rightarrow> 'a list" where
  "select_rows df bmask = map fst (filter snd (zip df bmask))"

text \<open>Line 16 of the source: \<open>mat_df\<close>, or the exception of \<open>str.contains\<close>.\<close>

definition matched_rows :: "dataframe \<Rightarrow> string \<Rightarrow> error + dataframe" where
  "matched_rows df material =
     (case str_contains (map description df) material of
        Inl e \<Rightarrow> Inl e
      | Inr bmask \<Rightarrow> Inr (select_rows df bmask))"

text \<open>\<open>perform_analysis\<close>: \<open>Inr None\<close> is the return value \<open>None\<close>.\<close>

definition perform_analysis :: "dataframe \<Rightarrow> string \<Rightarrow> error + summary option" where
  "perform_analysis df material =
     (case matched_rows df material of
        Inl e \<Rightarrow> Inl e
      | Inr mat_df \<Rightarrow>
          (if mat_df = [] then Inr None
           else
             (let ee_skew = skew (dropna (map embodied_energy mat_df));
                  ec_skew = skew (dropna (map embodied_carbon mat_df));
                  ee_clean = iqr_clean (map embodied_energy mat_df);
                  ec_clean = iqr_clean (map embodied_carbon mat_df);
                  median_ee = median ee_clean;
                  median_ec = median ec_clean
              in Inr (Some \<lparr>skew_ee = ee_skew, skew_ec = ec_skew,
                             median_ee = median_ee, median_ec = median_ec,
                             data = mat_df\<rparr>))))"

section \<open>Combining primary and secondary materials\<close>

text \<open>A row of the list \<open>combined\<close> (lines 139 to 144).\<close>

record comparison_row =
  Primary :: string
  Secondary :: string
  Combined_EE :: cell
  Combined_EC :: cell

text \<open>
  Lines 128 to 144. \<open>mapping.get(primary)\<close> is \<open>None\<close> or a name; Python takes \<open>None\<close> and the
  empty string as false. \<open>analysis_results\<close> holds the summaries of all materials, primary
  and secondary alike.
\<close>

fun combined ::
  "string list \<Rightarrow> (string \<rightharpoonup> string) \<Rightarrow> (string \<rightharpoonup> summary) \<Rightarrow> comparison_row list" where
  "combined [] mapping analysis_results = []"
| "combined (primary # rest) mapping analysis_results =
     (let secondary = mapping primary
      in case analysis_results primary of
           None \<Rightarrow> combined rest mapping analysis_results
         | Some primary_res \<Rightarrow>
             (let sec_res =
                    (case secondary of
                       None \<Rightarrow> None
                     | Some name \<Rightarrow> if name = [] then None else analysis_results name);
                  combined_ee =
                    (case sec_res of
                       Some r \<Rightarrow> nan_add (median_ee primary_res) (median_ee r)
                     | None \<Rightarrow> median_ee primary_res);
                  combined_ec =
                    (case sec_res of
                       Some r \<Rightarrow> nan_add (median_ec primary_res) (median_ec r)
                     | None \<Rightarrow> median_ec primary_res)
              in \<lparr>Primary = primary,
                   Secondary =
                     (case secondary of
                        None \<Rightarrow> ''None''
                      | Some name \<Rightarrow> if name = [] then ''None'' else name),
                   Combined_EE = combined_ee,
                   Combined_EC = combined_ec\<rparr>
                 # combined rest mapping analysis_results))"

section \<open>Sorting the comparison rows\<close>






section \<open>The specification's words\<close>

text \<open>
  The filter as the specification states it: the description contains the material as a
  substring, letters compared without case; a missing description does not match.
\<close>

definition ci_contains :: "string \<Rightarrow> string \<Rightarrow> bool" where
  "ci_contains d material = sublist (map lower material) (map lower d)"

definition spec_filter :: "dataframe \<Rightarrow> string \<Rightarrow> dataframe" where
  "spec_filter df material =
     filter (\<lambda>r. case description r of None \<Rightarrow> False | Some d \<Rightarrow> ci_contains d material) df"

text \<open>The characters that \<open>re\<close> does not read as themselves.\<close>

definition is_special :: "char \<Rightarrow> bool" where
  "is_special c = (c \<in> set [CHR ''.'', CHR 0x5C, CHR ''['', CHR ''{'', CHR ''('', CHR '')'',
                              CHR ''*'', CHR ''+'', CHR ''?'', CHR ''^'', CHR ''$'', CHR ''|''])"

text \<open>
  The trimmed median as the specification states it, on the values that are present:
  quartiles by linear interpolation, the values inside the fences, and their 50th
  percentile by the same interpolation; undefined when nothing is retained.
\<close>

definition spec_retained :: "real list \<Rightarrow> real list" where
  "spec_retained xs =
     (let Q1 = percentile_linear xs (25 / 100);
          Q3 = percentile_linear xs (75 / 100);
          IQR = Q3 - Q1
      in filter (\<lambda>v. Q1 - 1.5 * IQR \<le> v \<and> v \<le> Q3 + 1.5 * IQR) xs)"


text \<open>
  A comparison row as the combination step builds it for a primary material with summary
  \<open>pr\<close>: the secondary is the mapped name when one is mapped, and its medians are added
  when it has a summary of its own.
\<close>

definition mapped_secondary :: "(string \<rightharpoonup> string) \<Rightarrow> string \<Rightarrow> string option" where
  "mapped_secondary mapping p =
     (case mapping p of None \<Rightarrow> None | Some name \<Rightarrow> if name = [] then None else Some name)"

definition expected_row ::
  "(string \<rightharpoonup> string) \<Rightarrow> (string \<rightharpoonup> summary) \<Rightarrow> string \<Rightarrow> summary \<Rightarrow> comparison_row" where
  "expected_row mapping res p pr =
     (case mapped_secondary mapping p of
        None \<Rightarrow>
          \<lparr>Primary = p, Secondary = ''None'',
           Combined_EE = median_ee pr, Combined_EC = median_ec pr\<rparr>
      | Some name \<Rightarrow>
          (case res name of
             None \<Rightarrow>
               \<lparr>Primary = p, Secondary = name,
                Combined_EE = median_ee pr, Combined_EC = median_ec pr\<rparr>
           | Some sr \<Rightarrow>
               \<lparr>Primary = p, Secondary = name,
                Combined_EE = nan_add (median_ee pr) (median_ee sr),
                Combined_EC = nan_add (median_ec pr) (median_ec sr)\<rparr>))"

text \<open>The pattern that a material without special characters compiles to.\<close>

definition lits :: "string \<Rightarrow> regex" where
  "lits p = foldr (\<lambda>c r. Cat (Lit c) r) p Eps"

text \<open>A row of a frame, for the examples.\<close>

definition mk_row :: "string \<Rightarrow> cell \<Rightarrow> cell \<Rightarrow> row" where
  "mk_row d e c = \<lparr>description = Some d, embodied_energy = e, embodied_carbon = c\<rparr>"



definition vitrified_df :: dataframe where
  "vitrified_df =
     [mk_row ''Vitrified Tile'' (Some 1) (Some 2),
      \<lparr>description = None, embodied_energy = Some 3, embodied_carbon = Some 4\<rparr>,
      mk_row ''Granite'' (Some 5) (Some 6)]"

definition marble_summary :: summary where
  "marble_summary =
     \<lparr>skew_ee = None, skew_ec = None, median_ee = Some 50, median_ec = Some 7, data = []\<rparr>"




section \<open>Plain patterns\<close>

lemma re_step_plain:
  "\<not> is_special c \<Longrightarrow> \<not> escaped st \<Longrightarrow> re_step c st = Inr (st\<lparr>items := (Lit c, Plain) # items st\<rparr>)"
  by (simp add: re_step_def is_special_def push_item_def)

lemma re_run_plain:
  "list_all (\<lambda>c. \<not> is_special c) p \<Longrightarrow> \<not> escaped st \<Longrightarrow>
     re_run st p = Inr (st\<lparr>items := rev (map (\<lambda>c. (Lit c, Plain)) p) @ items st\<rparr>)"
proof (induction p arbitrary: st)
  case Nil
  then show ?case by simp
next
  case (Cons c p)
  then show ?case by (simp add: re_step_plain)
qed

lemma mk_seq_lits_aux:
  "foldl (\<lambda>acc it. Cat (fst it) acc) r (rev (map (\<lambda>c. (Lit c, Plain)) p))
     = foldr (\<lambda>c r. Cat (Lit c) r) p r"
  by (induction p arbitrary: r) simp_all

lemma re_compile_plain:
  assumes "list_all (\<lambda>c. \<not> is_special c) p"
  shows "re_compile p = Inr (lits p)"
  using re_run_plain [OF assms, of pstate0]
  by (simp add: re_compile_def pstate0_def close_group_def mk_seq_def mk_seq_lits_aux lits_def)

lemma match_here_Nul: "match_here Nul s = False"
  by (induction s) simp_all

lemma match_here_Cat_Nul: "match_here (Cat Nul r) s = False"
  by (induction s) simp_all

lemma match_here_Alt: "match_here (Alt a b) s = (match_here a s \<or> match_here b s)"
  by (induction s arbitrary: a b) auto

lemma match_here_Cat_Eps: "match_here (Cat Eps r) s = match_here r s"
  by (cases s) (simp_all add: match_here_Alt match_here_Cat_Nul)

lemma match_here_Cat_Lit:
  "match_here (Cat (Lit a) r) s =
     (case s of [] \<Rightarrow> False | c # cs \<Rightarrow> lower c = lower a \<and> match_here r cs)"
  by (cases s) (simp_all add: match_here_Cat_Eps match_here_Cat_Nul)

lemma match_here_lits: "match_here (lits p) s = prefix (map lower p) (map lower s)"
proof (induction p arbitrary: s)
  case Nil
  show ?case by (cases s) (simp_all add: lits_def)
next
  case (Cons a p)
  have "lits (a # p) = Cat (Lit a) (lits p)" by (simp add: lits_def)
  with Cons show ?case
    by (cases s) (auto simp add: match_here_Cat_Lit simp del: match_here.simps)
qed

lemma nullable_lits: "nullable (lits p) = (p = [])"
  by (cases p) (simp_all add: lits_def)

lemma re_search_lits: "re_search (lits p) s = sublist (map lower p) (map lower s)"
proof (induction s)
  case Nil
  show ?case by (simp add: nullable_lits)
next
  case (Cons c s)
  have "re_search (lits p) (c # s) = (match_here (lits p) (c # s) \<or> re_search (lits p) s)"
    by simp
  with Cons show ?case
    by (simp only: match_here_lits list.map sublist_Cons_right)
qed

lemma select_rows_map:
  "select_rows df (map f df) = filter f df"
  by (induction df) (simp_all add: select_rows_def)

lemma matched_rows_plain:
  assumes "list_all (\<lambda>c. \<not> is_special c) material"
  shows "matched_rows df material = Inr (spec_filter df material)"
proof -
  let ?f = "\<lambda>r. case description r of None \<Rightarrow> False | Some d \<Rightarrow> ci_contains d material"
  have "str_contains (map description df) material = Inr (map ?f df)"
    by (simp add: str_contains_def re_compile_plain [OF assms] re_search_lits ci_contains_def
          split: option.split)
  then have "matched_rows df material = Inr (select_rows df (map ?f df))"
    by (simp only: matched_rows_def sum.case)
  then show ?thesis
    by (simp only: select_rows_map spec_filter_def)
qed

section \<open>Median and fences\<close>

lemma dropna_fences:
  "dropna (filter (\<lambda>v. nan_ge v (Some lo) \<and> nan_le v (Some hi)) col)
     = filter (\<lambda>x. lo \<le> x \<and> x \<le> hi) (dropna col)"
proof (induction col)
  case Nil
  show ?case by simp
next
  case (Cons v col)
  then show ?case by (cases v) (simp_all add: nan_ge_def nan_le_def)
qed

lemma filter_nan_fence:
  "filter (\<lambda>v. nan_ge v None \<and> P v) col = []"
  by (induction col) (simp_all add: nan_ge_def split: option.split)

lemma floor_half_odd: "nat \<lfloor>real (2 * k) * (1 / 2)\<rfloor> = k"
  by simp

lemma floor_half_even: "nat \<lfloor>real (2 * k + 1) * (1 / 2)\<rfloor> = k"
proof -
  have "\<lfloor>real (2 * k + 1) * (1 / 2)\<rfloor> = int k"
    by (rule floor_unique) (simp_all add: field_simps)
  then show ?thesis by simp
qed

lemma percentile_half:
  assumes "xs \<noteq> []"
  shows "percentile_linear xs (1 / 2) =
           (let s = sort xs; n = length s
            in if odd n then s ! (n div 2) else (s ! (n div 2 - 1) + s ! (n div 2)) / 2)"
proof (cases "odd (length xs)")
  case True
  then obtain k where k: "length xs = 2 * k + 1" by (elim oddE)
  then have l: "length xs - 1 = 2 * k" by simp
  have h: "real (2 * k) * (1 / 2) - real k = 0" by simp
  from k show ?thesis
    unfolding percentile_linear_def Let_def lerp_def length_sort l floor_half_odd h
    by simp
next
  case False
  then have "even (length xs)" by simp
  then obtain k where k: "length xs = 2 * k" by (elim evenE)
  with assms have "0 < k" by (cases k) auto
  then obtain j where j: "k = Suc j" by (cases k) auto
  with k have l: "length xs - 1 = 2 * j + 1" by simp
  have h: "real (2 * j + 1) * (1 / 2) - real j = 1 / 2" by (simp add: field_simps)
  from k j l show ?thesis
    unfolding percentile_linear_def Let_def lerp_def length_sort l floor_half_even h
    by (simp add: field_simps)
qed

lemma sort_Nil_iff: "sort xs = [] \<longleftrightarrow> xs = []"
  by (metis length_sort length_0_conv)

lemma median_eq_percentile:
  "median col = (if dropna col = [] then None else Some (percentile_linear (dropna col) (1 / 2)))"
  by (simp add: median_def percentile_half Let_def sort_Nil_iff)

lemma dropna_iqr_clean: "dropna (iqr_clean col) = spec_retained (dropna col)"
proof (cases "dropna col = []")
  case True
  then show ?thesis
    by (simp add: iqr_clean_def quantile_def nan_sub_def nan_lift_def filter_nan_fence
          spec_retained_def)
next
  case False
  then show ?thesis
    by (simp add: iqr_clean_def quantile_def nan_sub_def nan_add_def nan_mul_def nan_lift_def
          Let_def dropna_fences spec_retained_def)
qed









lemma median_None_iff: "median col = None \<longleftrightarrow> dropna col = []"
  by (simp add: median_eq_percentile)

section \<open>The summary and its fields\<close>


lemma perform_analysis_rows:
  assumes "matched_rows df material = Inr rows" "rows \<noteq> []"
  shows "perform_analysis df material =
           Inr (Some \<lparr>skew_ee = skew (dropna (map embodied_energy rows)),
                      skew_ec = skew (dropna (map embodied_carbon rows)),
                      median_ee = median (iqr_clean (map embodied_energy rows)),
                      median_ec = median (iqr_clean (map embodied_carbon rows)),
                      data = rows\<rparr>)"
  using assms by (simp add: perform_analysis_def Let_def)

lemma skew_Nil: "skew [] = None"
  by (simp add: skew_def)




section \<open>Sorting by positions\<close>







section \<open>No match\<close>



section \<open>Trimmed median\<close>



section \<open>The filter is a regular expression\<close>

text \<open>
  For a material that contains none of the characters that \<open>re\<close> reads specially, the
  filter of line 16 selects exactly the rows whose description contains the material as a
  substring up to case. A missing description never matches and raises nothing. The
  description \<open>Vitrified Tile\<close> matches the material \<open>vitrified\<close>.
\<close>

theorem filter_is_substring_for_plain_material:
  assumes "list_all (\<lambda>c. \<not> is_special c) material"
  shows "matched_rows df material = Inr (spec_filter df material)
       \<and> list_all (\<lambda>r. description r \<noteq> None) (spec_filter df material)"
proof -
  have "list_all (\<lambda>r. description r \<noteq> None) (spec_filter df material)"
    by (auto simp: spec_filter_def list_all_iff split: option.splits)
  with matched_rows_plain [OF assms] show ?thesis by simp
qed

theorem filter_is_substring_for_plain_material_example:
  "list_all (\<lambda>c. \<not> is_special c) ''vitrified''
   \<and> matched_rows vitrified_df ''vitrified'' = Inr [mk_row ''Vitrified Tile'' (Some 1) (Some 2)]"
proof -
  have p: "list_all (\<lambda>c. \<not> is_special c) ''vitrified''"
    by (simp add: is_special_def)
  have "spec_filter vitrified_df ''vitrified'' = [mk_row ''Vitrified Tile'' (Some 1) (Some 2)]"
    by code_simp
  with filter_is_substring_for_plain_material [OF p, of vitrified_df] p show ?thesis
    by simp
qed

text \<open>
  Claim C3. The comment of line 15 says that the filter keeps the rows in which the
  material name appears in the description, as the claim does. The call of line 16 leaves
  \<open>regex\<close> at its default, and so the filter departs from both: the material \<open>.\<close> selects
  a row whose description contains no dot, and the material \<open>(\<close> selects nothing in a
  frame with the description \<open>Tile (ceramic)\<close> but raises.
\<close>

theorem dot_material_selects_row_without_dot:
  "matched_rows [mk_row ''Tile'' None None] ''.'' = Inr [mk_row ''Tile'' None None]
   \<and> spec_filter [mk_row ''Tile'' None None] ''.'' = []
   \<and> matched_rows [mk_row ''Tile (ceramic)'' None None] ''('' = Inl ReError
   \<and> spec_filter [mk_row ''Tile (ceramic)'' None None] ''(''
       = [mk_row ''Tile (ceramic)'' None None]"
proof -
  have "matched_rows [mk_row ''Tile'' None None] ''.'' = Inr [mk_row ''Tile'' None None]"
    by code_simp
  moreover have "spec_filter [mk_row ''Tile'' None None] ''.'' = []"
    by code_simp
  moreover have "matched_rows [mk_row ''Tile (ceramic)'' None None] ''('' = Inl ReError"
    by code_simp
  moreover have "spec_filter [mk_row ''Tile (ceramic)'' None None] ''(''
                   = [mk_row ''Tile (ceramic)'' None None]"
    by code_simp
  ultimately show ?thesis by simp
qed

text \<open>
  Claim C9. The material is a pattern: \<open>(\<close> makes \<open>perform_analysis\<close> raise on every frame,
  and \<open>c+\<close> selects a row that does not contain the two characters \<open>c+\<close>.
\<close>

theorem material_is_a_pattern:
  "perform_analysis df ''('' = Inl ReError
   \<and> matched_rows [mk_row ''Ceramic tile'' None None] ''c+'' = Inr [mk_row ''Ceramic tile'' None None]
   \<and> spec_filter [mk_row ''Ceramic tile'' None None] ''c+'' = []"
proof -
  have "re_compile ''('' = Inl ReError"
    by code_simp
  then have "perform_analysis df ''('' = Inl ReError"
    by (simp add: perform_analysis_def matched_rows_def str_contains_def)
  moreover have "matched_rows [mk_row ''Ceramic tile'' None None] ''c+''
                   = Inr [mk_row ''Ceramic tile'' None None]"
    by code_simp
  moreover have "spec_filter [mk_row ''Ceramic tile'' None None] ''c+'' = []"
    by code_simp
  ultimately show ?thesis by simp
qed

section \<open>Undefined statistics\<close>




text \<open>
  Claim C7. When rows are matched, \<open>perform_analysis\<close> returns a summary. A metric without
  any value in the matched rows has NaN for its skewness and for its median, and a metric
  of which the fences retain nothing has NaN for its median.
\<close>

theorem no_values_give_nan:
  assumes "matched_rows df material = Inr rows" and "rows \<noteq> []"
  shows "\<exists>s. perform_analysis df material = Inr (Some s) \<and> data s = rows
           \<and> (dropna (map embodied_energy rows) = [] \<longrightarrow> skew_ee s = None \<and> median_ee s = None)
           \<and> (dropna (map embodied_carbon rows) = [] \<longrightarrow> skew_ec s = None \<and> median_ec s = None)
           \<and> (dropna (iqr_clean (map embodied_energy rows)) = [] \<longrightarrow> median_ee s = None)
           \<and> (dropna (iqr_clean (map embodied_carbon rows)) = [] \<longrightarrow> median_ec s = None)"
proof -
  have "dropna (iqr_clean col) = []" if "dropna col = []" for col
    using that by (simp add: dropna_iqr_clean spec_retained_def)
  then show ?thesis
    unfolding perform_analysis_rows [OF assms]
    by (simp add: skew_Nil median_None_iff)
qed

theorem no_values_give_nan_witness:
  "\<exists>s. perform_analysis [mk_row ''screed'' None (Some 4)] ''screed'' = Inr (Some s)
      \<and> data s = [mk_row ''screed'' None (Some 4)]
      \<and> skew_ee s = None \<and> median_ee s = None"
proof -
  have m: "matched_rows [mk_row ''screed'' None (Some 4)] ''screed''
             = Inr [mk_row ''screed'' None (Some 4)]"
    by code_simp
  have e: "dropna (map embodied_energy [mk_row ''screed'' None (Some 4)]) = []"
    by (simp add: mk_row_def)
  from no_values_give_nan [OF m] e show ?thesis
    by auto
qed



section \<open>Combination and ranking\<close>

text \<open>
  Claim C4, as amended. The combination step appends one row for every entry of the
  primary materials that has a summary, in their order, and none for the others. The row
  adds the medians of the mapped secondary when that secondary has a summary, and has the
  medians of the primary alone otherwise. Its secondary field is \<open>None\<close> when no secondary
  is mapped and the mapped name in every other case, also when the mapped secondary has
  no summary.
\<close>

theorem combined_rows:
  "combined ps mapping res
     = List.map_filter (\<lambda>p. map_option (expected_row mapping res p) (res p)) ps
   \<and> map Primary (combined ps mapping res) = filter (\<lambda>p. res p \<noteq> None) ps"
proof
  show "combined ps mapping res
          = List.map_filter (\<lambda>p. map_option (expected_row mapping res p) (res p)) ps"
  proof (induction ps)
    case Nil
    show ?case by (simp add: List.map_filter_simps)
  next
    case (Cons p ps)
    then show ?case
      by (simp add: List.map_filter_simps expected_row_def mapped_secondary_def Let_def
            split: option.split)
  qed
  show "map Primary (combined ps mapping res) = filter (\<lambda>p. res p \<noteq> None) ps"
  proof (induction ps)
    case Nil
    show ?case by simp
  next
    case (Cons p ps)
    then show ?case
      by (cases "res p") (simp_all add: Let_def)
  qed
qed

text \<open>
  The claim as stated fails: marble is mapped to grout, grout has no summary, and the
  row reports \<open>grout\<close> as the secondary.
\<close>

theorem combined_secondary_counterexample:
  "combined [''marble''] [''marble'' \<mapsto> ''grout''] [''marble'' \<mapsto> marble_summary]
     = [\<lparr>Primary = ''marble'', Secondary = ''grout'',
         Combined_EE = Some 50, Combined_EC = Some 7\<rparr>]
   \<and> [''marble'' \<mapsto> marble_summary] ''grout'' = None"
  by (simp add: marble_summary_def)




end
